theory Spec2Isabelle
  imports Complex_Main "HOL-Library.Word"
begin

section \<open>SIFT\_app: the data the application handles\<close>

text \<open>
  A shallow embedding of \<^verbatim>\<open>SIFT_app.py\<close>: the class \<^verbatim>\<open>My_App\<close> with its
  constructor, the display conversion and its three slots. OpenCV, the camera, the file
  dialog and the layout file are outside the program: what they deliver is a parameter
  of the model (the record \<open>cv2\<close>, the payload of an event, the record \<open>ui_file\<close>).
  Python floats are modelled as reals; every exception the source can raise is a value.
\<close>

type_synonym byte = "8 word"

text \<open>A numpy array of dtype uint8: its shape and its bytes in row-major order.\<close>

record image =
  shape :: "nat list"
  data :: "byte list"

type_synonym point = "real \<times> real"

datatype keypoint = KeyPoint (pt: point)

record dmatch =
  queryIdx :: int
  trainIdx :: int
  distance :: real

type_synonym descriptors = "real list list"

type_synonym matrix = "real list list"

datatype py_error = AttributeError | IndexError | ValueError | TypeError | CvError

datatype qformat = Format_RGB888

record QImage =
  q_data :: "byte list"
  q_width :: nat
  q_height :: nat
  q_bytesPerLine :: nat
  q_format :: qformat

text \<open>A pixmap is built from an image in memory or loaded from a file path.\<close>

datatype QPixmap = FromImage QImage | FromFile string

record QTimer =
  active :: bool
  interval :: int

record VideoCapture =
  device :: int
  props :: "(int \<times> real) list"

record My_App =
  cam_id :: int
  cam_fps :: int
  is_cam_enabled :: bool
  is_template_loaded :: bool
  template_path :: "string option"
  camera_device :: VideoCapture
  timer :: QTimer
  toggle_cam_button :: string
  template_label :: "QPixmap option"
  live_image_label :: "QPixmap option"

text \<open>
  \<open>template_path\<close> is \<open>None\<close> while the attribute does not exist (the constructor
  does not create it). The last three fields are the widgets the layout file declares:
  the text of the toggle button and the pixmaps the two labels show.
\<close>

text \<open>What \<^verbatim>\<open>loadUi("./SIFT_app.ui", self)\<close> sets up; the layout file is not part of the sources.\<close>

record ui_file =
  ui_toggle_text :: string
  ui_template_pixmap :: "QPixmap option"
  ui_live_pixmap :: "QPixmap option"

section \<open>Effects\<close>

datatype call =
    Cv_read | Cv_cvtColor | Cv_imread | Cv_SIFT_create | Cv_detectAndCompute
  | Cv_drawKeypoints | Cv_knnMatch | Cv_findHomography | Cv_perspectiveTransform
  | Cv_polylines | Cv_drawMatches | Qt_setPixmap_live | Qt_setPixmap_template

datatype effect = Call call | Print string

text \<open>
  A method takes the object and returns its result or the exception it raised, the
  object as it is then (Python mutates in place: what was assigned before a raise stays
  assigned), and the library calls and printed lines it made, in order.
\<close>

type_synonym 'a exec = "My_App \<Rightarrow> (py_error + 'a) \<times> My_App \<times> effect list"

definition exec_return :: "'a \<Rightarrow> 'a exec" where
  "exec_return x self = (Inr x, self, [])"

definition exec_lift :: "py_error + 'a \<Rightarrow> 'a exec" where
  "exec_lift r self = (r, self, [])"

definition exec_call :: "call \<Rightarrow> py_error + 'a \<Rightarrow> 'a exec" where
  "exec_call c r self = (r, self, [Call c])"

definition exec_print :: "string \<Rightarrow> unit exec" where
  "exec_print line self = (Inr (), self, [Print line])"

definition exec_bind :: "'a exec \<Rightarrow> ('a \<Rightarrow> 'b exec) \<Rightarrow> 'b exec" where
  "exec_bind m f self =
     (case m self of
        (Inl e, self1, fx1) \<Rightarrow> (Inl e, self1, fx1)
      | (Inr x, self1, fx1) \<Rightarrow>
          (case f x self1 of (r, self2, fx2) \<Rightarrow> (r, self2, fx1 @ fx2)))"

section \<open>The ratio filter\<close>

text \<open>
  \<^verbatim>\<open>poi = []
  for m, n in matches:
      if m.distance < 0.65*n.distance:
          poi.append(m)\<close>
  \<open>knnMatch\<close> returns one list per query descriptor; unpacking \<^verbatim>\<open>m, n\<close> from a
  list that does not hold exactly two matches raises ValueError.
\<close>

fun ratio_filter :: "dmatch list list \<Rightarrow> dmatch list \<Rightarrow> py_error + dmatch list" where
  "ratio_filter [] poi = Inr poi"
| "ratio_filter ([m, n] # matches) poi =
     ratio_filter matches (if distance m < 0.65 * distance n then poi @ [m] else poi)"
| "ratio_filter (_ # matches) poi = Inl ValueError"

section \<open>The external library\<close>

text \<open>
  What OpenCV computes on arguments it accepts is a parameter: any function of the
  right type, which may also raise. \<open>imread_gray\<close> is the file system and the decoder
  together (\<open>None\<close> when the file cannot be read: \<^verbatim>\<open>cv2.imread\<close> does not raise).
  \<open>find_homography\<close> returns the matrix, \<open>None\<close> when no transform was found, and the
  inlier mask.
\<close>

record cv2 =
  cvt_gray :: "image \<Rightarrow> py_error + image"
  imread_gray :: "string \<Rightarrow> image option"
  sift_create :: "py_error + unit"
  sift_detectAndCompute :: "image \<Rightarrow> py_error + keypoint list \<times> descriptors option"
  draw_keypoints :: "image \<Rightarrow> keypoint list \<Rightarrow> py_error + image"
  flann_knnMatch ::
    "nat \<times> nat \<Rightarrow> descriptors option \<Rightarrow> descriptors option \<Rightarrow> nat \<Rightarrow> py_error + dmatch list list"
  find_homography ::
    "point list \<Rightarrow> point list \<Rightarrow> real \<Rightarrow> py_error + matrix option \<times> byte list option"
  perspective_transform :: "point list \<Rightarrow> matrix \<Rightarrow> py_error + point list"
  poly_lines :: "image \<Rightarrow> (int \<times> int) list \<Rightarrow> py_error + image"
  draw_matches ::
    "image \<Rightarrow> keypoint list \<Rightarrow> image \<Rightarrow> keypoint list \<Rightarrow> dmatch list \<Rightarrow> py_error + image"

text \<open>
  The Python bindings on \<^verbatim>\<open>None\<close>: an image argument that is \<^verbatim>\<open>None\<close> is an empty
  matrix, which OpenCV's functions refuse with \<^verbatim>\<open>cv2.error\<close>; so is a transform that is
  \<^verbatim>\<open>None\<close>. \<^verbatim>\<open>VideoCapture.read\<close> returns \<^verbatim>\<open>(False, None)\<close> when no frame was grabbed.
\<close>

definition VideoCapture_read :: "image option \<Rightarrow> (bool \<times> image option) exec" where
  "VideoCapture_read grabbed = exec_call Cv_read (Inr (grabbed \<noteq> None, grabbed))"

definition cvtColor_BGR2GRAY :: "cv2 \<Rightarrow> image option \<Rightarrow> image exec" where
  "cvtColor_BGR2GRAY cv src =
     exec_call Cv_cvtColor (case src of None \<Rightarrow> Inl CvError | Some img \<Rightarrow> cvt_gray cv img)"

definition imread_GRAYSCALE :: "cv2 \<Rightarrow> string \<Rightarrow> image option exec" where
  "imread_GRAYSCALE cv path = exec_call Cv_imread (Inr (imread_gray cv path))"

definition SIFT_create :: "cv2 \<Rightarrow> unit exec" where
  "SIFT_create cv = exec_call Cv_SIFT_create (sift_create cv)"

definition detectAndCompute ::
  "cv2 \<Rightarrow> image option \<Rightarrow> (keypoint list \<times> descriptors option) exec" where
  "detectAndCompute cv src =
     exec_call Cv_detectAndCompute
       (case src of None \<Rightarrow> Inl CvError | Some img \<Rightarrow> sift_detectAndCompute cv img)"

definition drawKeypoints :: "cv2 \<Rightarrow> image option \<Rightarrow> keypoint list \<Rightarrow> image exec" where
  "drawKeypoints cv src keyp =
     exec_call Cv_drawKeypoints
       (case src of None \<Rightarrow> Inl CvError | Some img \<Rightarrow> draw_keypoints cv img keyp)"

definition knnMatch ::
  "cv2 \<Rightarrow> nat \<times> nat \<Rightarrow> descriptors option \<Rightarrow> descriptors option \<Rightarrow> nat \<Rightarrow> dmatch list list exec" where
  "knnMatch cv index_params desc1 desc2 k =
     exec_call Cv_knnMatch (flann_knnMatch cv index_params desc1 desc2 k)"

definition findHomography ::
  "cv2 \<Rightarrow> point list \<Rightarrow> point list \<Rightarrow> real \<Rightarrow> (matrix option \<times> byte list option) exec" where
  "findHomography cv src_pts dst_pts thresh =
     exec_call Cv_findHomography (find_homography cv src_pts dst_pts thresh)"

definition perspectiveTransform :: "cv2 \<Rightarrow> point list \<Rightarrow> matrix option \<Rightarrow> point list exec" where
  "perspectiveTransform cv pts m =
     exec_call Cv_perspectiveTransform
       (case m of None \<Rightarrow> Inl CvError | Some h \<Rightarrow> perspective_transform cv pts h)"

definition polylines :: "cv2 \<Rightarrow> image option \<Rightarrow> (int \<times> int) list \<Rightarrow> image exec" where
  "polylines cv img pts =
     exec_call Cv_polylines (case img of None \<Rightarrow> Inl CvError | Some f \<Rightarrow> poly_lines cv f pts)"

definition drawMatches ::
  "cv2 \<Rightarrow> image \<Rightarrow> keypoint list \<Rightarrow> image \<Rightarrow> keypoint list \<Rightarrow> dmatch list \<Rightarrow> image exec" where
  "drawMatches cv img1 keyp1 img2 keyp2 matches1to2 =
     exec_call Cv_drawMatches (draw_matches cv img1 keyp1 img2 keyp2 matches1to2)"

text \<open>
  \<^verbatim>\<open>cv2.cvtColor(img, cv2.COLOR_BGR2RGB)\<close>, which the program could not do without, is
  modelled as OpenCV documents it: the source has three or four channels and is not
  empty, the result has three, and each pixel's first and third byte change places
  (a fourth, alpha, is dropped).
\<close>

fun swap_rb3 :: "byte list \<Rightarrow> byte list" where
  "swap_rb3 (b # g # r # rest) = r # g # b # swap_rb3 rest"
| "swap_rb3 _ = []"

fun swap_rb4 :: "byte list \<Rightarrow> byte list" where
  "swap_rb4 (b # g # r # a # rest) = r # g # b # swap_rb4 rest"
| "swap_rb4 _ = []"

definition cvtColor_BGR2RGB :: "image \<Rightarrow> py_error + image" where
  "cvtColor_BGR2RGB src =
     (case shape src of
        [h, w, c] \<Rightarrow>
          if h = 0 \<or> w = 0 then Inl CvError
          else if c = 3 then Inr \<lparr>shape = [h, w, 3], data = swap_rb3 (data src)\<rparr>
          else if c = 4 then Inr \<lparr>shape = [h, w, 3], data = swap_rb4 (data src)\<rparr>
          else Inl CvError
      | _ \<Rightarrow> Inl CvError)"

section \<open>Python's own operations\<close>

text \<open>\<^verbatim>\<open>a, b, c = arr.shape\<close>: ValueError unless the shape has three entries.\<close>

definition unpack3 :: "nat list \<Rightarrow> py_error + nat \<times> nat \<times> nat" where
  "unpack3 xs = (case xs of [a, b, c] \<Rightarrow> Inr (a, b, c) | _ \<Rightarrow> Inl ValueError)"

text \<open>\<^verbatim>\<open>xs[i]\<close>: a negative index counts from the end; out of range raises IndexError.\<close>

definition py_index :: "'a list \<Rightarrow> int \<Rightarrow> py_error + 'a" where
  "py_index xs i =
     (if 0 \<le> i \<and> i < int (length xs) then Inr (xs ! nat i)
      else if i < 0 \<and> - int (length xs) \<le> i then Inr (xs ! nat (int (length xs) + i))
      else Inl IndexError)"

text \<open>\<^verbatim>\<open>[keyp[i].pt for i in idxs]\<close>: the first failing element raises.\<close>

fun pts_at :: "keypoint list \<Rightarrow> int list \<Rightarrow> py_error + point list" where
  "pts_at keyp [] = Inr []"
| "pts_at keyp (i # idxs) =
     (case py_index keyp i of
        Inl e \<Rightarrow> Inl e
      | Inr k \<Rightarrow> (case pts_at keyp idxs of Inl e \<Rightarrow> Inl e | Inr ps \<Rightarrow> Inr (pt k # ps)))"

text \<open>Conversion of a float to an integer (\<^verbatim>\<open>np.int32\<close>, an int parameter of Qt): towards zero.\<close>

definition py_int :: "real \<Rightarrow> int" where
  "py_int x = (if 0 \<le> x then \<lfloor>x\<rfloor> else \<lceil>x\<rceil>)"

text \<open>\<^verbatim>\<open>mask.ravel().tolist()\<close>: AttributeError when the mask is \<^verbatim>\<open>None\<close>.\<close>

definition ravel_tolist :: "byte list option \<Rightarrow> py_error + byte list" where
  "ravel_tolist inliers = (case inliers of None \<Rightarrow> Inl AttributeError | Some bs \<Rightarrow> Inr bs)"

text \<open>\<^verbatim>\<open>self.template_path\<close>: AttributeError while the attribute does not exist.\<close>

definition get_template_path :: "string exec" where
  "get_template_path self =
     (case template_path self of
        None \<Rightarrow> (Inl AttributeError, self, [])
      | Some path \<Rightarrow> (Inr path, self, []))"

section \<open>The class My\_App\<close>

subsection \<open>The constructor\<close>

definition setInterval :: "real \<Rightarrow> QTimer \<Rightarrow> QTimer" where
  "setInterval msec t = t\<lparr>interval := py_int msec\<rparr>"

text \<open>
  \<^verbatim>\<open>self._cam_id = 0; self._cam_fps = 2
  self._is_cam_enabled = False; self._is_template_loaded = False
  self._camera_device = cv2.VideoCapture(self._cam_id)
  self._camera_device.set(3, 320); self._camera_device.set(4, 240)
  self._timer = QtCore.QTimer(self)
  self._timer.setInterval(100 / self._cam_fps)\<close>
  A new QTimer is inactive with interval 0. \<^verbatim>\<open>/\<close> is Python 3's true division.
\<close>

definition My_App_init :: "ui_file \<Rightarrow> My_App" where
  "My_App_init ui =
     (let the_cam_id = 0; the_cam_fps = 2 in
      \<lparr>cam_id = the_cam_id,
       cam_fps = the_cam_fps,
       is_cam_enabled = False,
       is_template_loaded = False,
       template_path = None,
       camera_device = \<lparr>device = the_cam_id, props = [(3, 320), (4, 240)]\<rparr>,
       timer = setInterval (100 / of_int the_cam_fps) \<lparr>active = False, interval = 0\<rparr>,
       toggle_cam_button = ui_toggle_text ui,
       template_label = ui_template_pixmap ui,
       live_image_label = ui_live_pixmap ui\<rparr>)"

subsection \<open>convert\_cv\_to\_pixmap\<close>

text \<open>
  \<^verbatim>\<open>cv_img = cv2.cvtColor(cv_img, cv2.COLOR_BGR2RGB)
  height, width, channel = cv_img.shape
  bytesPerLine = channel * width
  q_img = QtGui.QImage(cv_img.data, width, height, bytesPerLine, QtGui.QImage.Format_RGB888)
  return QtGui.QPixmap.fromImage(q_img)\<close>
\<close>

definition convert_cv_to_pixmap :: "image \<Rightarrow> QPixmap exec" where
  "convert_cv_to_pixmap cv_img =
     exec_bind (exec_call Cv_cvtColor (cvtColor_BGR2RGB cv_img)) (\<lambda>cv_img.
     exec_bind (exec_lift (unpack3 (shape cv_img))) (\<lambda>(height, width, channel).
     let bytesPerLine = channel * width;
         q_img = \<lparr>q_data = data cv_img, q_width = width, q_height = height,
                  q_bytesPerLine = bytesPerLine, q_format = Format_RGB888\<rparr>
     in exec_return (FromImage q_img)))"

subsection \<open>SLOT\_query\_camera\<close>

definition live_image_label_setPixmap :: "QPixmap \<Rightarrow> unit exec" where
  "live_image_label_setPixmap pixmap self =
     (Inr (), self\<lparr>live_image_label := Some pixmap\<rparr>, [Call Qt_setPixmap_live])"

text \<open>What lines 80 to 102 leave in the local variables that lines 106 to 129 read.\<close>

record matched =
  frame :: "image option"
  img_templ :: image
  keyp_img_templ :: "keypoint list"
  grayframe :: image
  keyp_gframe :: "keypoint list"
  poi :: "dmatch list"

text \<open>
  Lines 80 to 102: read a frame, convert it to grey, read the template from
  \<^verbatim>\<open>self.template_path\<close>, detect and draw the keypoints of both, match the descriptors
  (\<^verbatim>\<open>index_params = dict(algorithm = 0, trees = 5)\<close>, \<^verbatim>\<open>k=2\<close>) and filter by the ratio.
\<close>

definition query_matches :: "cv2 \<Rightarrow> image option \<Rightarrow> matched exec" where
  "query_matches cv grabbed =
     exec_bind (VideoCapture_read grabbed) (\<lambda>(ret, frame0).
     exec_bind (cvtColor_BGR2GRAY cv frame0) (\<lambda>grayframe0.
     exec_bind get_template_path (\<lambda>path.
     exec_bind (imread_GRAYSCALE cv path) (\<lambda>img_templ0.
     exec_bind (SIFT_create cv) (\<lambda>sift.
     exec_bind (detectAndCompute cv img_templ0) (\<lambda>(keyp_templ, desc_img_templ).
     exec_bind (detectAndCompute cv (Some grayframe0)) (\<lambda>(keyp_g, desc_gframe).
     exec_bind (drawKeypoints cv img_templ0 keyp_templ) (\<lambda>img_templ1.
     exec_bind (drawKeypoints cv (Some grayframe0) keyp_g) (\<lambda>grayframe1.
     exec_bind (knnMatch cv (0, 5) desc_img_templ desc_gframe 2) (\<lambda>matches.
     exec_bind (exec_lift (ratio_filter matches [])) (\<lambda>poi0.
     exec_return
       \<lparr>frame = frame0, img_templ = img_templ1, keyp_img_templ = keyp_templ,
        grayframe = grayframe1, keyp_gframe = keyp_g, poi = poi0\<rparr>)))))))))))"

text \<open>
  Lines 106 to 129: with more than four matches, estimate the homography (RANSAC,
  threshold 5.0), project the template's corners, draw them on the frame and show it;
  otherwise show the two images with lines between the matches.
\<close>

definition query_render :: "cv2 \<Rightarrow> matched \<Rightarrow> unit exec" where
  "query_render cv mt =
     (if length (poi mt) > 4 then
        exec_bind (exec_lift (pts_at (keyp_img_templ mt) (map queryIdx (poi mt)))) (\<lambda>query_pts.
        exec_bind (exec_lift (pts_at (keyp_gframe mt) (map trainIdx (poi mt)))) (\<lambda>train_pts.
        exec_bind (findHomography cv query_pts train_pts 5.0) (\<lambda>(matrix, inliers).
        exec_bind (exec_lift (ravel_tolist inliers)) (\<lambda>matches_mask.
        exec_bind (exec_lift (unpack3 (shape (img_templ mt)))) (\<lambda>(h, w, c).
        let pts = [(0, 0), (0, real h), (real w, real h), (real w, 0)] in
        exec_bind (perspectiveTransform cv pts matrix) (\<lambda>dst.
        exec_bind (polylines cv (frame mt) (map (\<lambda>(x, y). (py_int x, py_int y)) dst)) (\<lambda>homography.
        exec_bind (convert_cv_to_pixmap homography) (\<lambda>pixmap.
        live_image_label_setPixmap pixmap))))))))
      else
        exec_bind (drawMatches cv (img_templ mt) (keyp_img_templ mt) (grayframe mt)
                     (keyp_gframe mt) (poi mt)) (\<lambda>match_img.
        exec_bind (convert_cv_to_pixmap match_img) (\<lambda>pixmap.
        live_image_label_setPixmap pixmap)))"

definition SLOT_query_camera :: "cv2 \<Rightarrow> image option \<Rightarrow> unit exec" where
  "SLOT_query_camera cv grabbed = exec_bind (query_matches cv grabbed) (query_render cv)"

subsection \<open>SLOT\_browse\_button\<close>

definition template_label_setPixmap :: "QPixmap \<Rightarrow> unit exec" where
  "template_label_setPixmap pixmap self =
     (Inr (), self\<lparr>template_label := Some pixmap\<rparr>, [Call Qt_setPixmap_template])"

text \<open>
  \<^verbatim>\<open>if dlg.exec_():
      self.template_path = dlg.selectedFiles()[0]
  pixmap = QtGui.QPixmap(self.template_path)
  self.template_label.setPixmap(pixmap)
  print("Loaded template image file: " + self.template_path)\<close>
  The dialog is the user's: whether it was confirmed and the files it then lists.
\<close>

definition dialog_assign :: "bool \<times> string list \<Rightarrow> unit exec" where
  "dialog_assign dlg self =
     (if fst dlg then
        (case snd dlg of
           [] \<Rightarrow> (Inl IndexError, self, [])
         | file # _ \<Rightarrow> (Inr (), self\<lparr>template_path := Some file\<rparr>, []))
      else (Inr (), self, []))"

definition SLOT_browse_button :: "bool \<times> string list \<Rightarrow> unit exec" where
  "SLOT_browse_button dlg =
     exec_bind (dialog_assign dlg) (\<lambda>_.
     exec_bind get_template_path (\<lambda>path1.
     exec_bind (template_label_setPixmap (FromFile path1)) (\<lambda>_.
     exec_bind get_template_path (\<lambda>path2.
     exec_print (''Loaded template image file: '' @ path2)))))"

subsection \<open>SLOT\_toggle\_camera\<close>

text \<open>
  \<^verbatim>\<open>if self._is_cam_enabled:
      self._timer.stop(); self._is_cam_enabled = False
      self.toggle_cam_button.setText("&Enable camera")
  else:
      self._timer.start(); self._is_cam_enabled = True
      self.toggle_cam_button.setText("&Disable camera")\<close>
\<close>

definition SLOT_toggle_camera :: "unit exec" where
  "SLOT_toggle_camera self =
     (if is_cam_enabled self then
        (Inr (),
         self\<lparr>timer := (timer self)\<lparr>active := False\<rparr>,
              is_cam_enabled := False,
              toggle_cam_button := ''&Enable camera''\<rparr>, [])
      else
        (Inr (),
         self\<lparr>timer := (timer self)\<lparr>active := True\<rparr>,
              is_cam_enabled := True,
              toggle_cam_button := ''&Disable camera''\<rparr>, []))"

section \<open>The event loop\<close>

text \<open>
  The two buttons are connected to their slots and the timer's timeout to
  \<open>SLOT_query_camera\<close>; a timer that is not active does not fire. An event carries
  what the outside delivers with it: the dialog's outcome, the frame the camera grabbed
  (\<open>None\<close> when the read fails). After a slot raised, the run goes on from the object
  as the slot left it; an event loop that ends the process instead reaches fewer states.
\<close>

datatype event =
    Browse_clicked bool "string list"
  | Toggle_clicked
  | Timer_timeout "image option"

fun dispatch :: "cv2 \<Rightarrow> event \<Rightarrow> unit exec" where
  "dispatch cv (Browse_clicked accepted files) self = SLOT_browse_button (accepted, files) self"
| "dispatch cv Toggle_clicked self = SLOT_toggle_camera self"
| "dispatch cv (Timer_timeout grabbed) self =
     (if active (timer self) then SLOT_query_camera cv grabbed self else (Inr (), self, []))"

fun run :: "cv2 \<Rightarrow> event list \<Rightarrow> My_App \<Rightarrow> My_App \<times> effect list" where
  "run cv [] self = (self, [])"
| "run cv (e # es) self =
     (case dispatch cv e self of
        (r, self1, fx1) \<Rightarrow> (case run cv es self1 of (self2, fx2) \<Rightarrow> (self2, fx1 @ fx2)))"

definition exec_value :: "(py_error + 'a) \<times> My_App \<times> effect list \<Rightarrow> py_error + 'a" where
  "exec_value r = fst r"

definition exec_state :: "(py_error + 'a) \<times> My_App \<times> effect list \<Rightarrow> My_App" where
  "exec_state r = fst (snd r)"

definition exec_effects :: "(py_error + 'a) \<times> My_App \<times> effect list \<Rightarrow> effect list" where
  "exec_effects r = snd (snd r)"

text \<open>The lines written to standard output, in order.\<close>

fun stdout_of :: "effect list \<Rightarrow> string list" where
  "stdout_of [] = []"
| "stdout_of (Print line # fx) = line # stdout_of fx"
| "stdout_of (Call c # fx) = stdout_of fx"

section \<open>Derived notions and concrete inputs\<close>

text \<open>Two presses of the toggle button, one after the other.\<close>

definition toggle_twice :: "My_App \<Rightarrow> My_App" where
  "toggle_twice self = exec_state (SLOT_toggle_camera (exec_state (SLOT_toggle_camera self)))"

text \<open>The text \<open>SLOT_toggle_camera\<close> writes on the button when it leaves the flag at \<open>enabled\<close>.\<close>

definition button_label :: "bool \<Rightarrow> string" where
  "button_label enabled = (if enabled then ''&Disable camera'' else ''&Enable camera'')"

text \<open>
  The file a run of events leaves selected: the first file of the last confirmed
  dialog that listed one, and the path held before while there was none.
\<close>

fun chosen_path :: "event list \<Rightarrow> string option \<Rightarrow> string option" where
  "chosen_path [] path = path"
| "chosen_path (Browse_clicked True (file # files) # es) path = chosen_path es (Some file)"
| "chosen_path (e # es) path = chosen_path es path"

text \<open>
  Three ways to bound what a method does: it never produces the effect \<open>q\<close>; it leaves
  the observation \<open>obs\<close> of the object as it was; whenever it raises, it has left the
  whole object as it was and has not produced \<open>q\<close>.
\<close>

definition avoids :: "effect \<Rightarrow> 'a exec \<Rightarrow> bool" where
  "avoids q m = (\<forall>self. q \<notin> set (exec_effects (m self)))"

definition preserves :: "(My_App \<Rightarrow> 'b) \<Rightarrow> 'a exec \<Rightarrow> bool" where
  "preserves obs m = (\<forall>self. obs (exec_state (m self)) = obs self)"

text \<open>
  A method does not depend on a part of the object when changing that part beforehand
  (by \<open>upd\<close>) changes nothing but that part of the object it leaves.
\<close>

definition oblivious :: "(My_App \<Rightarrow> My_App) \<Rightarrow> 'a exec \<Rightarrow> bool" where
  "oblivious upd m =
     (\<forall>self. m (upd self) = (case m self of (r, self1, fx) \<Rightarrow> (r, upd self1, fx)))"

definition raises_cleanly :: "effect \<Rightarrow> 'a exec \<Rightarrow> bool" where
  "raises_cleanly q m =
     (\<forall>self. isl (exec_value (m self)) \<longrightarrow>
        exec_state (m self) = self \<and> q \<notin> set (exec_effects (m self)))"

text \<open>
  Concrete inputs for the runs evaluated below: a 1 by 2 colour image, a grey image, five
  keypoints, a pair of matches that passes the ratio test, and a library that returns
  these whatever it is given; its matcher returns the list \<open>matches\<close> and its
  estimator the transform \<open>h\<close>.
\<close>

definition demo_image :: image where
  "demo_image = \<lparr>shape = [1, 2, 3], data = [1, 2, 3, 4, 5, 6]\<rparr>"

definition demo_gray :: image where
  "demo_gray = \<lparr>shape = [1, 2], data = [2, 5]\<rparr>"

definition demo_keypoints :: "keypoint list" where
  "demo_keypoints =
     [KeyPoint (0, 0), KeyPoint (1, 0), KeyPoint (2, 0), KeyPoint (3, 0), KeyPoint (4, 0)]"

definition demo_pair :: "int \<Rightarrow> dmatch list" where
  "demo_pair i =
     [\<lparr>queryIdx = i, trainIdx = i, distance = 1\<rparr>, \<lparr>queryIdx = i, trainIdx = 0, distance = 10\<rparr>]"

definition demo_five :: "dmatch list list" where
  "demo_five = map demo_pair [0, 1, 2, 3, 4]"

definition demo_four :: "dmatch list list" where
  "demo_four = map demo_pair [0, 1, 2, 3]"

definition demo_cv2 :: "dmatch list list \<Rightarrow> matrix option \<Rightarrow> cv2" where
  "demo_cv2 matches h =
     \<lparr>cvt_gray = (\<lambda>img. Inr demo_gray),
      imread_gray = (\<lambda>path. if path = ''box.png'' then Some demo_gray else None),
      sift_create = Inr (),
      sift_detectAndCompute = (\<lambda>img. Inr (demo_keypoints, Some [[0]])),
      draw_keypoints = (\<lambda>img keyp. Inr demo_image),
      flann_knnMatch = (\<lambda>index_params desc1 desc2 k. Inr matches),
      find_homography = (\<lambda>src_pts dst_pts thresh. Inr (h, Some [0, 0, 0, 0, 0])),
      perspective_transform = (\<lambda>pts m. Inr pts),
      poly_lines = (\<lambda>img pts. Inr img),
      draw_matches = (\<lambda>img1 keyp1 img2 keyp2 ms. Inr demo_image)\<rparr>"

definition demo_ui :: "string \<Rightarrow> ui_file" where
  "demo_ui label = \<lparr>ui_toggle_text = label, ui_template_pixmap = None, ui_live_pixmap = None\<rparr>"

definition demo_poi :: "dmatch list" where
  "demo_poi =
     [\<lparr>queryIdx = 0, trainIdx = 0, distance = 1\<rparr>, \<lparr>queryIdx = 1, trainIdx = 1, distance = 1\<rparr>,
      \<lparr>queryIdx = 2, trainIdx = 2, distance = 1\<rparr>, \<lparr>queryIdx = 3, trainIdx = 3, distance = 1\<rparr>,
      \<lparr>queryIdx = 4, trainIdx = 4, distance = 1\<rparr>]"

definition demo_pts :: "point list" where
  "demo_pts = [(0, 0), (1, 0), (2, 0), (3, 0), (4, 0)]"

text \<open>What lines 80 to 102 compute with this library when the filter returns \<open>p\<close>.\<close>

definition demo_matched :: "dmatch list \<Rightarrow> matched" where
  "demo_matched p =
     \<lparr>frame = Some demo_image, img_templ = demo_image, keyp_img_templ = demo_keypoints,
      grayframe = demo_image, keyp_gframe = demo_keypoints, poi = p\<rparr>"

text \<open>The application after the template \<^verbatim>\<open>box.png\<close> was chosen and the camera enabled.\<close>

definition demo_running :: My_App where
  "demo_running =
     \<lparr>cam_id = 0, cam_fps = 2, is_cam_enabled = True, is_template_loaded = False,
      template_path = Some ''box.png'',
      camera_device = \<lparr>device = 0, props = [(3, 320), (4, 240)]\<rparr>,
      timer = \<lparr>active = True, interval = 50\<rparr>,
      toggle_cam_button = ''&Disable camera'',
      template_label = Some (FromFile ''box.png''),
      live_image_label = None\<rparr>"

section \<open>Properties of the ratio filter\<close>

lemma ratio_filter_pairs:
  "ratio_filter (map (\<lambda>(m, n). [m, n]) pairs) acc =
     Inr (acc @ map fst (filter (\<lambda>(m, n). distance m < 0.65 * distance n) pairs))"
  by (induction pairs arbitrary: acc) (auto split: prod.splits)

text \<open>
  C2. For every list of match pairs (best, secondBest) the loop, started on the empty
  list, returns without raising, and its result is exactly the best matches of the
  pairs with \<open>best.distance < 0.65 * secondBest.distance\<close>, in input order; so a
  pair's best match is kept if and only if the pair satisfies the inequality.
\<close>

theorem ratio_filter_keeps_exactly:
  "ratio_filter (map (\<lambda>(m, n). [m, n]) pairs) [] =
     Inr (map fst (filter (\<lambda>(m, n). distance m < 0.65 * distance n) pairs))"
  by (simp add: ratio_filter_pairs)

section \<open>Reasoning about methods\<close>

lemmas exec_defs = exec_bind_def exec_return_def exec_lift_def exec_call_def exec_print_def
  exec_value_def exec_state_def exec_effects_def

lemmas lib_defs = VideoCapture_read_def cvtColor_BGR2GRAY_def imread_GRAYSCALE_def SIFT_create_def
  detectAndCompute_def drawKeypoints_def knnMatch_def findHomography_def perspectiveTransform_def
  polylines_def drawMatches_def

lemmas demo_defs = demo_image_def demo_gray_def demo_keypoints_def demo_pair_def demo_cv2_def
  demo_ui_def demo_running_def demo_five_def demo_four_def demo_poi_def demo_pts_def demo_matched_def

lemmas slot_defs = SLOT_browse_button_def SLOT_toggle_camera_def dialog_assign_def
  template_label_setPixmap_def live_image_label_setPixmap_def get_template_path_def

lemma exec_bind_Inl:
  "m self = (Inl e, s1, fx1) \<Longrightarrow> exec_bind m f self = (Inl e, s1, fx1)"
  by (simp add: exec_bind_def)

lemma exec_bind_Inr:
  "m self = (Inr x, s1, fx1) \<Longrightarrow> f x s1 = (r, s2, fx2) \<Longrightarrow>
     exec_bind m f self = (r, s2, fx1 @ fx2)"
  by (simp add: exec_bind_def)

lemma exec_bind_cases:
  obtains (raised) e s1 fx1 where "m self = (Inl e, s1, fx1)" "exec_bind m f self = (Inl e, s1, fx1)"
  | (returned) x s1 fx1 r s2 fx2 where "m self = (Inr x, s1, fx1)" "f x s1 = (r, s2, fx2)"
      "exec_bind m f self = (r, s2, fx1 @ fx2)"
proof (cases "m self")
  case (fields v s1 fx1)
  show thesis
  proof (cases v)
    case (Inl e)
    with fields raised show thesis by (simp add: exec_bind_def)
  next
    case (Inr x)
    obtain r s2 fx2 where "f x s1 = (r, s2, fx2)" by (cases "f x s1")
    with fields Inr returned show thesis by (simp add: exec_bind_def)
  qed
qed

subsection \<open>Effects a method never produces\<close>

lemma avoids_lift: "avoids q (exec_lift r)"
  by (simp add: avoids_def exec_defs)

lemma avoids_return: "avoids q (exec_return x)"
  by (simp add: avoids_def exec_defs)

lemma avoids_call: "q \<noteq> Call c \<Longrightarrow> avoids q (exec_call c r)"
  by (simp add: avoids_def exec_defs)

lemma avoids_print: "q \<noteq> Print line \<Longrightarrow> avoids q (exec_print line)"
  by (simp add: avoids_def exec_defs)

lemma avoids_bind: "avoids q m \<Longrightarrow> (\<And>x. avoids q (f x)) \<Longrightarrow> avoids q (exec_bind m f)"
  unfolding avoids_def
proof
  fix self
  assume m: "\<forall>self. q \<notin> set (exec_effects (m self))"
    and f: "\<And>x. \<forall>self. q \<notin> set (exec_effects (f x self))"
  show "q \<notin> set (exec_effects (exec_bind m f self))"
  proof (cases rule: exec_bind_cases [of m self f])
    case (raised e s1 fx1)
    with m [rule_format, of self] show ?thesis by (simp add: exec_effects_def)
  next
    case (returned x s1 fx1 r s2 fx2)
    with m [rule_format, of self] f [rule_format, of x s1] show ?thesis
      by (simp add: exec_effects_def)
  qed
qed

lemma avoids_case_prod:
  "(\<And>a b. avoids q (g a b)) \<Longrightarrow> avoids q (case x of (a, b) \<Rightarrow> g a b)"
  by (cases x) simp

lemma avoids_get_template_path: "avoids q get_template_path"
  by (simp add: avoids_def get_template_path_def exec_effects_def split: option.splits)

lemma avoids_live_setPixmap:
  "q \<noteq> Call Qt_setPixmap_live \<Longrightarrow> avoids q (live_image_label_setPixmap pixmap)"
  by (simp add: avoids_def live_image_label_setPixmap_def exec_effects_def)

lemma avoids_convert: "q \<noteq> Call Cv_cvtColor \<Longrightarrow> avoids q (convert_cv_to_pixmap img)"
  unfolding convert_cv_to_pixmap_def Let_def
  by (intro avoids_bind avoids_call avoids_lift avoids_return avoids_case_prod) simp

lemmas avoids_intros = avoids_bind avoids_call avoids_lift avoids_return avoids_case_prod
  avoids_get_template_path avoids_live_setPixmap avoids_convert avoids_print

subsection \<open>Observations a method leaves alone\<close>

lemma preserves_lift: "preserves obs (exec_lift r)"
  by (simp add: preserves_def exec_defs)

lemma preserves_return: "preserves obs (exec_return x)"
  by (simp add: preserves_def exec_defs)

lemma preserves_call: "preserves obs (exec_call c r)"
  by (simp add: preserves_def exec_defs)

lemma preserves_print: "preserves obs (exec_print line)"
  by (simp add: preserves_def exec_defs)

lemma preserves_bind:
  "preserves obs m \<Longrightarrow> (\<And>x. preserves obs (f x)) \<Longrightarrow> preserves obs (exec_bind m f)"
  unfolding preserves_def
proof
  fix self
  assume m: "\<forall>self. obs (exec_state (m self)) = obs self"
    and f: "\<And>x. \<forall>self. obs (exec_state (f x self)) = obs self"
  show "obs (exec_state (exec_bind m f self)) = obs self"
  proof (cases rule: exec_bind_cases [of m self f])
    case (raised e s1 fx1)
    with m [rule_format, of self] show ?thesis by (simp add: exec_state_def)
  next
    case (returned x s1 fx1 r s2 fx2)
    with m [rule_format, of self] f [rule_format, of x s1] show ?thesis
      by (simp add: exec_state_def)
  qed
qed

lemma preserves_case_prod:
  "(\<And>a b. preserves obs (g a b)) \<Longrightarrow> preserves obs (case x of (a, b) \<Rightarrow> g a b)"
  by (cases x) simp

lemma preserves_get_template_path: "preserves obs get_template_path"
  by (simp add: preserves_def get_template_path_def exec_state_def split: option.splits)

lemma preserves_convert: "preserves obs (convert_cv_to_pixmap img)"
  unfolding convert_cv_to_pixmap_def Let_def
  by (intro preserves_bind preserves_call preserves_lift preserves_return preserves_case_prod)

lemma preserves_live_setPixmap:
  "(\<And>s p. obs (s\<lparr>live_image_label := p\<rparr>) = obs s) \<Longrightarrow>
     preserves obs (live_image_label_setPixmap pixmap)"
  by (simp add: preserves_def live_image_label_setPixmap_def exec_state_def)

lemmas preserves_intros = preserves_bind preserves_call preserves_lift preserves_return
  preserves_case_prod preserves_get_template_path preserves_convert preserves_print

subsection \<open>Methods that change nothing when they raise\<close>

lemma raises_cleanly_bind:
  "avoids q m \<Longrightarrow> preserves (\<lambda>s. s) m \<Longrightarrow> (\<And>x. raises_cleanly q (f x)) \<Longrightarrow>
     raises_cleanly q (exec_bind m f)"
  unfolding avoids_def preserves_def raises_cleanly_def
proof (intro allI impI)
  fix self
  assume a: "\<forall>self. q \<notin> set (exec_effects (m self))"
    and p: "\<forall>self. exec_state (m self) = self"
    and f: "\<And>x. \<forall>self. isl (exec_value (f x self)) \<longrightarrow>
              exec_state (f x self) = self \<and> q \<notin> set (exec_effects (f x self))"
    and r: "isl (exec_value (exec_bind m f self))"
  show "exec_state (exec_bind m f self) = self \<and> q \<notin> set (exec_effects (exec_bind m f self))"
  proof (cases rule: exec_bind_cases [of m self f])
    case (raised e s1 fx1)
    with a [rule_format, of self] p [rule_format, of self] show ?thesis
      by (simp add: exec_state_def exec_effects_def)
  next
    case (returned x s1 fx1 r2 s2 fx2)
    with a [rule_format, of self] p [rule_format, of self] f [rule_format, of x s1] r
    show ?thesis
      by (simp add: exec_state_def exec_effects_def exec_value_def)
  qed
qed

lemma raises_cleanly_case_prod:
  "(\<And>a b. raises_cleanly q (g a b)) \<Longrightarrow> raises_cleanly q (case x of (a, b) \<Rightarrow> g a b)"
  by (cases x) simp

lemma raises_cleanly_live_setPixmap: "raises_cleanly q (live_image_label_setPixmap pixmap)"
  by (simp add: raises_cleanly_def live_image_label_setPixmap_def exec_value_def)

section \<open>Properties of SLOT\_query\_camera\<close>

lemma tick_split:
  "SLOT_query_camera cv g self =
     (case query_matches cv g self of
        (Inl e, s1, fx1) \<Rightarrow> (Inl e, s1, fx1)
      | (Inr mt, s1, fx1) \<Rightarrow>
          (case query_render cv mt s1 of (r, s2, fx2) \<Rightarrow> (r, s2, fx1 @ fx2)))"
  by (simp add: SLOT_query_camera_def exec_bind_def)

lemma query_matches_avoids:
  "q \<notin> Call ` {Cv_read, Cv_cvtColor, Cv_imread, Cv_SIFT_create, Cv_detectAndCompute,
                Cv_drawKeypoints, Cv_knnMatch} \<Longrightarrow> avoids q (query_matches cv g)"
  unfolding query_matches_def lib_defs
  by (intro avoids_intros) auto

lemma query_matches_preserves: "preserves obs (query_matches cv g)"
  unfolding query_matches_def lib_defs
  by (intro preserves_intros)

lemma query_matches_state: "exec_state (query_matches cv g self) = self"
  using query_matches_preserves [of "\<lambda>s. s" cv g] by (simp add: preserves_def)

lemma query_render_avoids:
  "q \<notin> Call ` {Cv_findHomography, Cv_perspectiveTransform, Cv_polylines, Cv_drawMatches,
                Cv_cvtColor, Qt_setPixmap_live} \<Longrightarrow> avoids q (query_render cv mt)"
  unfolding query_render_def lib_defs Let_def
  by (auto intro!: avoids_intros)

lemma query_render_preserves:
  "(\<And>s p. obs (s\<lparr>live_image_label := p\<rparr>) = obs s) \<Longrightarrow> preserves obs (query_render cv mt)"
  unfolding query_render_def lib_defs Let_def
  by (auto intro!: preserves_intros preserves_live_setPixmap)

lemma query_render_raises_cleanly: "raises_cleanly (Call Qt_setPixmap_live) (query_render cv mt)"
  unfolding query_render_def lib_defs Let_def
  by (auto intro!: raises_cleanly_bind raises_cleanly_case_prod raises_cleanly_live_setPixmap
      avoids_intros preserves_intros)

lemma tick_avoids:
  "q \<notin> Call ` {Cv_read, Cv_cvtColor, Cv_imread, Cv_SIFT_create, Cv_detectAndCompute,
                Cv_drawKeypoints, Cv_knnMatch, Cv_findHomography, Cv_perspectiveTransform,
                Cv_polylines, Cv_drawMatches, Qt_setPixmap_live} \<Longrightarrow>
     avoids q (SLOT_query_camera cv g)"
  unfolding SLOT_query_camera_def
  by (intro avoids_bind query_matches_avoids query_render_avoids) auto

lemma tick_preserves:
  "(\<And>s p. obs (s\<lparr>live_image_label := p\<rparr>) = obs s) \<Longrightarrow> preserves obs (SLOT_query_camera cv g)"
  unfolding SLOT_query_camera_def
  by (intro preserves_bind query_matches_preserves query_render_preserves)

lemma tick_raises_cleanly: "raises_cleanly (Call Qt_setPixmap_live) (SLOT_query_camera cv g)"
  unfolding SLOT_query_camera_def
  by (intro raises_cleanly_bind query_matches_avoids query_matches_preserves
      query_render_raises_cleanly) auto

lemma render_few:
  "\<not> 4 < length (poi mt) \<Longrightarrow>
     Call Cv_drawMatches \<in> set (exec_effects (query_render cv mt s)) \<and>
     Call Cv_findHomography \<notin> set (exec_effects (query_render cv mt s))"
  unfolding query_render_def convert_cv_to_pixmap_def live_image_label_setPixmap_def
    exec_defs lib_defs
  by (auto split: sum.splits prod.splits)

lemma render_many_no_drawMatches:
  "4 < length (poi mt) \<Longrightarrow> Call Cv_drawMatches \<notin> set (exec_effects (query_render cv mt s))"
proof -
  assume many: "4 < length (poi mt)"
  have "avoids (Call Cv_drawMatches) (query_render cv mt)"
    unfolding query_render_def lib_defs Let_def using many
    by (auto intro!: avoids_intros)
  then show ?thesis by (simp add: avoids_def)
qed

lemma render_many_findHomography:
  assumes "4 < length (poi mt)"
    and "pts_at (keyp_img_templ mt) (map queryIdx (poi mt)) = Inr q"
    and "pts_at (keyp_gframe mt) (map trainIdx (poi mt)) = Inr t"
  shows "Call Cv_findHomography \<in> set (exec_effects (query_render cv mt s))"
proof -
  let ?rest = "\<lambda>(matrix, inliers).
        exec_bind (exec_lift (ravel_tolist inliers)) (\<lambda>matches_mask.
        exec_bind (exec_lift (unpack3 (shape (img_templ mt)))) (\<lambda>(h, w, c).
        let pts = [(0, 0), (0, real h), (real w, real h), (real w, 0)] in
        exec_bind (perspectiveTransform cv pts matrix) (\<lambda>dst.
        exec_bind (polylines cv (frame mt) (map (\<lambda>(x, y). (py_int x, py_int y)) dst)) (\<lambda>homography.
        exec_bind (convert_cv_to_pixmap homography) (\<lambda>pixmap.
        live_image_label_setPixmap pixmap)))))"
  have eq: "query_render cv mt s = exec_bind (findHomography cv q t 5.0) ?rest s"
    using assms by (simp add: query_render_def exec_bind_def exec_lift_def)
  have fh: "findHomography cv q t 5.0 s = (find_homography cv q t 5.0, s, [Call Cv_findHomography])"
    by (simp add: findHomography_def exec_call_def)
  show ?thesis
  proof (cases rule: exec_bind_cases [of "findHomography cv q t 5.0" s ?rest])
    case (raised e s1 fx1)
    with eq fh show ?thesis by (auto simp: exec_effects_def)
  next
    case (returned x s1 fx1 r s2 fx2)
    with eq fh show ?thesis by (auto simp: exec_effects_def)
  qed
qed

lemma render_estimator_failed:
  assumes "4 < length (poi mt)"
    and "pts_at (keyp_img_templ mt) (map queryIdx (poi mt)) = Inr q"
    and "pts_at (keyp_gframe mt) (map trainIdx (poi mt)) = Inr t"
    and "find_homography cv q t 5.0 = Inr (None, inliers)"
  shows "isl (exec_value (query_render cv mt s))"
  using assms
  unfolding query_render_def exec_defs findHomography_def perspectiveTransform_def
    ravel_tolist_def
  by (simp split: option.splits sum.splits prod.splits)

text \<open>
  C1. In a tick, \<^verbatim>\<open>cv2.findHomography\<close> is called only if lines 80 to 102 got as far as
  the filter and more than four matches survived it; with more than four it is called
  (provided every match indexes an existing keypoint, as a matcher's do) and
  \<^verbatim>\<open>cv2.drawMatches\<close> is not; with four or fewer \<^verbatim>\<open>cv2.drawMatches\<close> is called and
  \<^verbatim>\<open>cv2.findHomography\<close> is not. A tick that raised before the filter calls neither.
\<close>

theorem tick_homography_iff_more_than_four:
  "(case exec_value (query_matches cv grabbed self) of
      Inl e \<Rightarrow>
        Call Cv_findHomography \<notin> set (exec_effects (SLOT_query_camera cv grabbed self)) \<and>
        Call Cv_drawMatches \<notin> set (exec_effects (SLOT_query_camera cv grabbed self))
    | Inr mt \<Rightarrow>
        if 4 < length (poi mt) then
          Call Cv_drawMatches \<notin> set (exec_effects (SLOT_query_camera cv grabbed self)) \<and>
          (\<not> isl (pts_at (keyp_img_templ mt) (map queryIdx (poi mt))) \<and>
           \<not> isl (pts_at (keyp_gframe mt) (map trainIdx (poi mt))) \<longrightarrow>
           Call Cv_findHomography \<in> set (exec_effects (SLOT_query_camera cv grabbed self)))
        else
          Call Cv_drawMatches \<in> set (exec_effects (SLOT_query_camera cv grabbed self)) \<and>
          Call Cv_findHomography \<notin> set (exec_effects (SLOT_query_camera cv grabbed self)))"
proof (cases "query_matches cv grabbed self")
  case (fields r s1 fx1)
  have "avoids (Call Cv_findHomography) (query_matches cv grabbed)"
    and "avoids (Call Cv_drawMatches) (query_matches cv grabbed)"
    by (intro query_matches_avoids; auto)+
  with fields have no: "Call Cv_findHomography \<notin> set fx1" "Call Cv_drawMatches \<notin> set fx1"
    unfolding avoids_def exec_effects_def
    by (metis snd_conv)+
  show ?thesis
  proof (cases r)
    case (Inl e)
    with fields no show ?thesis
      by (simp add: tick_split exec_value_def exec_effects_def)
  next
    case (Inr mt)
    obtain r2 s2 fx2 where rd: "query_render cv mt s1 = (r2, s2, fx2)"
      by (cases "query_render cv mt s1")
    have fx: "exec_effects (SLOT_query_camera cv grabbed self) = fx1 @ fx2"
      using fields Inr rd by (simp add: tick_split exec_effects_def)
    have val: "exec_value (query_matches cv grabbed self) = Inr mt"
      using fields Inr by (simp add: exec_value_def)
    show ?thesis
    proof (cases "4 < length (poi mt)")
      case True
      have a: "Call Cv_drawMatches \<notin> set fx2"
        using render_many_no_drawMatches [OF True, of cv s1] rd by (simp add: exec_effects_def)
      have b: "Call Cv_findHomography \<in> set fx2"
        if "\<not> isl (pts_at (keyp_img_templ mt) (map queryIdx (poi mt)))"
          and "\<not> isl (pts_at (keyp_gframe mt) (map trainIdx (poi mt)))"
      proof -
        from that obtain q t where
          "pts_at (keyp_img_templ mt) (map queryIdx (poi mt)) = Inr q"
          "pts_at (keyp_gframe mt) (map trainIdx (poi mt)) = Inr t"
          by (metis sum.collapse(2))
        from render_many_findHomography [OF True this, of cv s1] rd show ?thesis
          by (simp add: exec_effects_def)
      qed
      from True a b no show ?thesis by (simp add: val fx)
    next
      case False
      have c: "Call Cv_drawMatches \<in> set fx2 \<and> Call Cv_findHomography \<notin> set fx2"
        using render_few [OF False, of cv s1] rd by (simp add: exec_effects_def)
      from False c no show ?thesis by (simp add: val fx)
    qed
  qed
qed

lemma demo_query_matches:
  "query_matches (demo_cv2 ms h) (Some demo_image) demo_running =
     (case ratio_filter ms [] of
        Inl e \<Rightarrow>
          (Inl e, demo_running,
           [Call Cv_read, Call Cv_cvtColor, Call Cv_imread, Call Cv_SIFT_create,
            Call Cv_detectAndCompute, Call Cv_detectAndCompute, Call Cv_drawKeypoints,
            Call Cv_drawKeypoints, Call Cv_knnMatch])
      | Inr p \<Rightarrow>
          (Inr (demo_matched p), demo_running,
           [Call Cv_read, Call Cv_cvtColor, Call Cv_imread, Call Cv_SIFT_create,
            Call Cv_detectAndCompute, Call Cv_detectAndCompute, Call Cv_drawKeypoints,
            Call Cv_drawKeypoints, Call Cv_knnMatch]))"
  by (simp add: query_matches_def exec_defs lib_defs get_template_path_def demo_cv2_def
      demo_running_def demo_matched_def split: sum.splits)

lemma demo_filter_five: "ratio_filter demo_five [] = Inr demo_poi"
  by (simp add: demo_five_def demo_four_def demo_pair_def demo_poi_def)

lemma demo_filter_four: "ratio_filter demo_four [] = Inr (take 4 demo_poi)"
  by (simp add: demo_five_def demo_four_def demo_pair_def demo_poi_def)

lemma demo_poi_length: "length demo_poi = 5"
  by (simp add: demo_poi_def)

lemma demo_pts_at:
  "pts_at demo_keypoints (map queryIdx demo_poi) = Inr demo_pts"
  "pts_at demo_keypoints (map trainIdx demo_poi) = Inr demo_pts"
  by (simp_all add: demo_keypoints_def demo_poi_def demo_pts_def py_index_def)

lemma demo_run_to_running:
  "fst (run cv [Browse_clicked True [''box.png''], Toggle_clicked]
         (My_App_init (demo_ui ''&Enable camera''))) = demo_running"
  by (simp add: My_App_init_def setInterval_def py_int_def Let_def demo_ui_def demo_running_def
      slot_defs exec_defs)

text \<open>C1's theorem in a concrete tick with five surviving matches, all indexing keypoints.\<close>

theorem tick_homography_iff_more_than_four_witness:
  "exec_value (query_matches (demo_cv2 demo_five (Some [[1]]))
      (Some demo_image) demo_running) = Inr (demo_matched demo_poi) \<and>
   4 < length (poi (demo_matched demo_poi)) \<and>
   \<not> isl (pts_at (keyp_img_templ (demo_matched demo_poi)) (map queryIdx (poi (demo_matched demo_poi)))) \<and>
   \<not> isl (pts_at (keyp_gframe (demo_matched demo_poi)) (map trainIdx (poi (demo_matched demo_poi)))) \<and>
   Call Cv_findHomography \<in> set (exec_effects (SLOT_query_camera
      (demo_cv2 demo_five (Some [[1]])) (Some demo_image) demo_running)) \<and>
   Call Cv_drawMatches \<notin> set (exec_effects (SLOT_query_camera
      (demo_cv2 demo_five (Some [[1]])) (Some demo_image) demo_running))"
proof -
  let ?cv = "demo_cv2 demo_five (Some [[1]])"
  have h1: "exec_value (query_matches ?cv (Some demo_image) demo_running)
      = Inr (demo_matched demo_poi)"
    by (simp add: demo_query_matches demo_filter_five exec_value_def)
  have h2: "4 < length (poi (demo_matched demo_poi))"
    by (simp add: demo_matched_def demo_poi_def)
  have h3: "\<not> isl (pts_at (keyp_img_templ (demo_matched demo_poi))
      (map queryIdx (poi (demo_matched demo_poi))))"
    by (simp add: demo_matched_def demo_pts_at)
  have h4: "\<not> isl (pts_at (keyp_gframe (demo_matched demo_poi))
      (map trainIdx (poi (demo_matched demo_poi))))"
    by (simp add: demo_matched_def demo_pts_at)
  from tick_homography_iff_more_than_four [of ?cv "Some demo_image" demo_running]
  have "Call Cv_drawMatches \<notin> set (exec_effects (SLOT_query_camera ?cv (Some demo_image) demo_running))
      \<and> Call Cv_findHomography \<in> set (exec_effects (SLOT_query_camera ?cv (Some demo_image) demo_running))"
    unfolding h1 using h2 h3 h4 by simp
  with h1 h2 h3 h4 show ?thesis by blast
qed

text \<open>
  C3, as the code has it. When more than four matches survive the filter (each indexing
  an existing keypoint) and the estimator finds no transform (it returns \<^verbatim>\<open>None\<close> for
  the matrix), \<^verbatim>\<open>cv2.findHomography\<close> has been called, the tick raises an exception that
  leaves the slot, the object is as it was before the tick and the live label's pixmap
  was not set: nothing is rendered, but the tick does end in an exception.
\<close>

theorem estimator_failure_raises:
  assumes "exec_value (query_matches cv grabbed self) = Inr mt"
    and "4 < length (poi mt)"
    and "pts_at (keyp_img_templ mt) (map queryIdx (poi mt)) = Inr q"
    and "pts_at (keyp_gframe mt) (map trainIdx (poi mt)) = Inr t"
    and "find_homography cv q t 5.0 = Inr (None, inliers)"
  shows "Call Cv_findHomography \<in> set (exec_effects (SLOT_query_camera cv grabbed self)) \<and>
         isl (exec_value (SLOT_query_camera cv grabbed self)) \<and>
         exec_state (SLOT_query_camera cv grabbed self) = self \<and>
         Call Qt_setPixmap_live \<notin> set (exec_effects (SLOT_query_camera cv grabbed self))"
proof -
  obtain s1 fx1 where qm: "query_matches cv grabbed self = (Inr mt, s1, fx1)"
    using assms(1) by (cases "query_matches cv grabbed self") (simp add: exec_value_def)
  obtain r2 s2 fx2 where rd: "query_render cv mt s1 = (r2, s2, fx2)"
    by (cases "query_render cv mt s1")
  have tick: "SLOT_query_camera cv grabbed self = (r2, s2, fx1 @ fx2)"
    using qm rd by (simp add: tick_split)
  have "Call Cv_findHomography \<in> set fx2"
    using render_many_findHomography [OF assms(2-4), of cv s1] rd by (simp add: exec_effects_def)
  moreover have raised: "isl r2"
    using render_estimator_failed [OF assms(2-5), of s1] rd by (simp add: exec_value_def)
  moreover from raised tick_raises_cleanly [of cv grabbed] tick
  have "s2 = self \<and> Call Qt_setPixmap_live \<notin> set (fx1 @ fx2)"
    unfolding raises_cleanly_def exec_value_def exec_state_def exec_effects_def
    by (metis fst_conv snd_conv)
  ultimately show ?thesis
    by (simp add: tick exec_value_def exec_state_def exec_effects_def)
qed

text \<open>The hypotheses of C3's theorem hold in a concrete tick, and so does its conclusion.\<close>

theorem estimator_failure_raises_witness:
  "exec_value (query_matches (demo_cv2 demo_five None)
      (Some demo_image) demo_running) = Inr (demo_matched demo_poi) \<and>
   4 < length (poi (demo_matched demo_poi)) \<and>
   pts_at (keyp_img_templ (demo_matched demo_poi)) (map queryIdx (poi (demo_matched demo_poi)))
     = Inr demo_pts \<and>
   pts_at (keyp_gframe (demo_matched demo_poi)) (map trainIdx (poi (demo_matched demo_poi)))
     = Inr demo_pts \<and>
   find_homography (demo_cv2 demo_five None) demo_pts demo_pts 5.0
     = Inr (None, Some [0, 0, 0, 0, 0]) \<and>
   Call Cv_findHomography \<in> set (exec_effects (SLOT_query_camera
      (demo_cv2 demo_five None) (Some demo_image) demo_running)) \<and>
   isl (exec_value (SLOT_query_camera
      (demo_cv2 demo_five None) (Some demo_image) demo_running)) \<and>
   exec_state (SLOT_query_camera
      (demo_cv2 demo_five None) (Some demo_image) demo_running)
     = demo_running \<and>
   Call Qt_setPixmap_live \<notin> set (exec_effects (SLOT_query_camera
      (demo_cv2 demo_five None) (Some demo_image) demo_running))"
proof -
  have h1: "exec_value (query_matches (demo_cv2 demo_five None)
      (Some demo_image) demo_running) = Inr (demo_matched demo_poi)"
    by (simp add: demo_query_matches demo_filter_five exec_value_def)
  have h2: "4 < length (poi (demo_matched demo_poi))"
    by (simp add: demo_matched_def demo_poi_def)
  have h3: "pts_at (keyp_img_templ (demo_matched demo_poi))
      (map queryIdx (poi (demo_matched demo_poi))) = Inr demo_pts"
    by (simp add: demo_matched_def demo_pts_at)
  have h4: "pts_at (keyp_gframe (demo_matched demo_poi))
      (map trainIdx (poi (demo_matched demo_poi))) = Inr demo_pts"
    by (simp add: demo_matched_def demo_pts_at)
  have h5: "find_homography (demo_cv2 demo_five None) demo_pts demo_pts 5.0
     = Inr (None, Some [0, 0, 0, 0, 0])"
    by (simp add: demo_cv2_def)
  from estimator_failure_raises [OF h1 h2 h3 h4 h5] h1 h2 h3 h4 h5 show ?thesis
    by blast
qed

lemma demo_tick_five_none:
  "SLOT_query_camera (demo_cv2 demo_five None) (Some demo_image) demo_running =
     (Inl CvError, demo_running,
      [Call Cv_read, Call Cv_cvtColor, Call Cv_imread, Call Cv_SIFT_create,
       Call Cv_detectAndCompute, Call Cv_detectAndCompute, Call Cv_drawKeypoints,
       Call Cv_drawKeypoints, Call Cv_knnMatch, Call Cv_findHomography,
       Call Cv_perspectiveTransform])"
  apply (simp only: tick_split demo_query_matches demo_filter_five sum.case prod.case)
  apply (simp add: query_render_def demo_matched_def demo_pts_at demo_poi_length exec_bind_def
      exec_lift_def exec_call_def findHomography_def perspectiveTransform_def ravel_tolist_def
      unpack3_def demo_image_def demo_cv2_def)
  done

text \<open>
  C3 as stated fails. After a template was chosen and the camera enabled, in a tick in
  which five matches survive and the estimator reports failure, the timer's callback
  ends with \<^verbatim>\<open>cv2.error\<close> (raised by \<^verbatim>\<open>cv2.perspectiveTransform\<close> on the missing
  matrix).
\<close>

theorem estimator_failure_escapes:
  "fst (run (demo_cv2 demo_five None) [Browse_clicked True [''box.png''], Toggle_clicked]
         (My_App_init (demo_ui ''&Enable camera''))) = demo_running \<and>
   exec_value (query_matches (demo_cv2 demo_five None)
      (Some demo_image) demo_running) = Inr (demo_matched demo_poi) \<and>
   length (poi (demo_matched demo_poi)) = 5 \<and>
   find_homography (demo_cv2 demo_five None) demo_pts demo_pts 5.0
     = Inr (None, Some [0, 0, 0, 0, 0]) \<and>
   active (timer demo_running) \<and>
   exec_value (dispatch (demo_cv2 demo_five None)
      (Timer_timeout (Some demo_image)) demo_running) = Inl CvError"
  apply (simp only: demo_run_to_running simp_thms)
  apply (simp add: demo_tick_five_none demo_query_matches demo_filter_five exec_value_def)
  apply (simp add: demo_matched_def demo_poi_def demo_cv2_def demo_running_def)
  done

text \<open>
  C4, as the code has it. When the camera read fails (\<^verbatim>\<open>read\<close> returns no frame), the
  tick calls \<^verbatim>\<open>cv2.cvtColor\<close> on the missing frame, which raises \<^verbatim>\<open>cv2.error\<close>; the
  exception leaves the slot, nothing after the conversion runs, and the object, with the
  pixmap the live label shows, is unchanged.
\<close>

theorem camera_read_failure_raises:
  "SLOT_query_camera cv None self = (Inl CvError, self, [Call Cv_read, Call Cv_cvtColor])"
  by (simp add: SLOT_query_camera_def query_matches_def VideoCapture_read_def
      cvtColor_BGR2GRAY_def exec_bind_def exec_call_def)

text \<open>
  C4 as stated fails: after a template was chosen and the camera enabled, a timeout
  whose read fails ends the timer's callback with an exception.
\<close>

theorem camera_read_failure_escapes:
  "fst (run (demo_cv2 [] None) [Browse_clicked True [''box.png''], Toggle_clicked]
         (My_App_init (demo_ui ''&Enable camera''))) = demo_running \<and>
   active (timer demo_running) \<and>
   exec_value (dispatch (demo_cv2 [] None) (Timer_timeout None) demo_running) = Inl CvError"
  apply (simp only: demo_run_to_running simp_thms)
  by (simp add: SLOT_query_camera_def query_matches_def VideoCapture_read_def
      cvtColor_BGR2GRAY_def exec_bind_def exec_call_def exec_value_def demo_running_def)

section \<open>Properties of the event loop\<close>

lemma oblivious_lift: "oblivious upd (exec_lift r)"
  by (simp add: oblivious_def exec_defs)

lemma oblivious_return: "oblivious upd (exec_return x)"
  by (simp add: oblivious_def exec_defs)

lemma oblivious_call: "oblivious upd (exec_call c r)"
  by (simp add: oblivious_def exec_defs)

lemma oblivious_bind:
  "oblivious upd m \<Longrightarrow> (\<And>x. oblivious upd (f x)) \<Longrightarrow> oblivious upd (exec_bind m f)"
  unfolding oblivious_def
proof
  fix self
  assume m: "\<forall>self. m (upd self) = (case m self of (r, self1, fx) \<Rightarrow> (r, upd self1, fx))"
    and f: "\<And>x. \<forall>self. f x (upd self) = (case f x self of (r, self1, fx) \<Rightarrow> (r, upd self1, fx))"
  show "exec_bind m f (upd self) =
      (case exec_bind m f self of (r, self1, fx) \<Rightarrow> (r, upd self1, fx))"
  proof (cases rule: exec_bind_cases [of m self f])
    case (raised e s1 fx1)
    with m [rule_format, of self] show ?thesis by (simp add: exec_bind_def)
  next
    case (returned x s1 fx1 r s2 fx2)
    with m [rule_format, of self] f [rule_format, of x s1] show ?thesis
      by (simp add: exec_bind_def)
  qed
qed

lemma oblivious_case_prod:
  "(\<And>a b. oblivious upd (g a b)) \<Longrightarrow> oblivious upd (case x of (a, b) \<Rightarrow> g a b)"
  by (cases x) simp

lemma oblivious_get_template_path:
  "(\<And>s. template_path (upd s) = template_path s) \<Longrightarrow> oblivious upd get_template_path"
  by (simp add: oblivious_def get_template_path_def split: option.splits)

lemma oblivious_live_setPixmap:
  "(\<And>s p. upd (s\<lparr>live_image_label := p\<rparr>) = (upd s)\<lparr>live_image_label := p\<rparr>) \<Longrightarrow>
     oblivious upd (live_image_label_setPixmap pixmap)"
  by (simp add: oblivious_def live_image_label_setPixmap_def)

lemma oblivious_convert: "oblivious upd (convert_cv_to_pixmap img)"
  unfolding convert_cv_to_pixmap_def Let_def
  by (intro oblivious_bind oblivious_call oblivious_lift oblivious_return oblivious_case_prod)

lemmas oblivious_intros = oblivious_bind oblivious_call oblivious_lift oblivious_return
  oblivious_case_prod oblivious_get_template_path oblivious_live_setPixmap oblivious_convert

lemma tick_oblivious_flag:
  "oblivious (is_template_loaded_update (\<lambda>_. b)) (SLOT_query_camera cv g)"
  unfolding SLOT_query_camera_def query_matches_def query_render_def lib_defs Let_def
  by (auto intro!: oblivious_intros)

lemma browse_frame:
  "is_template_loaded (exec_state (SLOT_browse_button dlg s)) = is_template_loaded s"
  "is_cam_enabled (exec_state (SLOT_browse_button dlg s)) = is_cam_enabled s"
  "timer (exec_state (SLOT_browse_button dlg s)) = timer s"
  "toggle_cam_button (exec_state (SLOT_browse_button dlg s)) = toggle_cam_button s"
  unfolding slot_defs exec_defs
  by (simp_all split: list.splits option.splits)

lemma browse_path:
  "template_path (exec_state (SLOT_browse_button (accepted, files) s)) =
     chosen_path [Browse_clicked accepted files] (template_path s)"
  unfolding slot_defs exec_defs
  by (cases accepted; cases files) (simp_all split: option.splits)

lemma tick_frame:
  "is_template_loaded (exec_state (SLOT_query_camera cv g s)) = is_template_loaded s"
  "is_cam_enabled (exec_state (SLOT_query_camera cv g s)) = is_cam_enabled s"
  "timer (exec_state (SLOT_query_camera cv g s)) = timer s"
  "toggle_cam_button (exec_state (SLOT_query_camera cv g s)) = toggle_cam_button s"
  "template_path (exec_state (SLOT_query_camera cv g s)) = template_path s"
  using tick_preserves [of is_template_loaded cv g] tick_preserves [of is_cam_enabled cv g]
    tick_preserves [of timer cv g] tick_preserves [of toggle_cam_button cv g]
    tick_preserves [of template_path cv g]
  by (simp_all add: preserves_def)

lemma toggle_frame:
  "is_template_loaded (exec_state (SLOT_toggle_camera s)) = is_template_loaded s"
  "template_path (exec_state (SLOT_toggle_camera s)) = template_path s"
  "is_cam_enabled (exec_state (SLOT_toggle_camera s)) = (\<not> is_cam_enabled s)"
  "active (timer (exec_state (SLOT_toggle_camera s))) = (\<not> is_cam_enabled s)"
  "toggle_cam_button (exec_state (SLOT_toggle_camera s)) = button_label (\<not> is_cam_enabled s)"
  by (simp_all add: SLOT_toggle_camera_def exec_state_def button_label_def)

lemma dispatch_frame:
  "is_template_loaded (exec_state (dispatch cv e s)) = is_template_loaded s"
  "template_path (exec_state (dispatch cv e s)) = chosen_path [e] (template_path s)"
  by (cases e; simp add: browse_frame browse_path tick_frame toggle_frame;
      simp add: exec_state_def)+

lemma dispatch_in_step:
  "is_cam_enabled s = active (timer s) \<Longrightarrow>
     is_cam_enabled (exec_state (dispatch cv e s)) = active (timer (exec_state (dispatch cv e s)))"
  by (cases e; simp add: browse_frame tick_frame toggle_frame; simp add: exec_state_def)

lemma dispatch_label:
  "toggle_cam_button (exec_state (dispatch cv e s)) =
     (if e = Toggle_clicked then button_label (is_cam_enabled (exec_state (dispatch cv e s)))
      else toggle_cam_button s)"
  "e \<noteq> Toggle_clicked \<Longrightarrow> is_cam_enabled (exec_state (dispatch cv e s)) = is_cam_enabled s"
  by (cases e; simp add: browse_frame tick_frame toggle_frame; simp add: exec_state_def)+

lemma run_Cons:
  "fst (run cv (e # es) s) = fst (run cv es (exec_state (dispatch cv e s)))"
  by (simp add: exec_state_def split: prod.splits)

lemma chosen_path_Cons: "chosen_path (e # es) path = chosen_path es (chosen_path [e] path)"
proof (cases e)
  case (Browse_clicked accepted files)
  then show ?thesis by (cases accepted; cases files) simp_all
qed simp_all

lemma run_flag: "is_template_loaded (fst (run cv evs s)) = is_template_loaded s"
proof (induction evs arbitrary: s)
  case Nil
  show ?case by simp
next
  case (Cons e es)
  show ?case
    unfolding run_Cons Cons.IH dispatch_frame ..
qed

lemma run_path: "template_path (fst (run cv evs s)) = chosen_path evs (template_path s)"
proof (induction evs arbitrary: s)
  case Nil
  show ?case by simp
next
  case (Cons e es)
  show ?case
    unfolding run_Cons Cons.IH dispatch_frame
    by (rule chosen_path_Cons [symmetric])
qed

lemma run_in_step:
  "is_cam_enabled s = active (timer s) \<Longrightarrow>
     is_cam_enabled (fst (run cv evs s)) = active (timer (fst (run cv evs s)))"
proof (induction evs arbitrary: s)
  case Nil
  then show ?case by simp
next
  case (Cons e es)
  from Cons.IH [OF dispatch_in_step [OF Cons.prems]] show ?case
    unfolding run_Cons .
qed

lemma run_label:
  "toggle_cam_button s = button_label (is_cam_enabled s) \<or> Toggle_clicked \<in> set evs \<Longrightarrow>
     toggle_cam_button (fst (run cv evs s)) = button_label (is_cam_enabled (fst (run cv evs s)))"
proof (induction evs arbitrary: s)
  case Nil
  then show ?case by simp
next
  case (Cons e es)
  have "toggle_cam_button (exec_state (dispatch cv e s)) =
      button_label (is_cam_enabled (exec_state (dispatch cv e s))) \<or> Toggle_clicked \<in> set es"
    using Cons.prems dispatch_label [where cv = cv and e = e and s = s]
    by (cases "e = Toggle_clicked") auto
  from Cons.IH [OF this] show ?case
    unfolding run_Cons .
qed

lemma init_fields:
  "is_cam_enabled (My_App_init ui) = False"
  "active (timer (My_App_init ui)) = False"
  "is_template_loaded (My_App_init ui) = False"
  "template_path (My_App_init ui) = None"
  "toggle_cam_button (My_App_init ui) = ui_toggle_text ui"
  "interval (timer (My_App_init ui)) = 50"
  "cam_fps (My_App_init ui) = 2"
  by (simp_all add: My_App_init_def setInterval_def py_int_def Let_def)

lemma tick_without_path:
  "template_path self = None \<Longrightarrow>
     isl (exec_value (SLOT_query_camera cv grabbed self)) \<and>
     exec_effects (SLOT_query_camera cv grabbed self) = [Call Cv_read, Call Cv_cvtColor]"
  by (simp add: SLOT_query_camera_def query_matches_def VideoCapture_read_def
      cvtColor_BGR2GRAY_def get_template_path_def exec_defs split: sum.splits)

text \<open>
  C5, as the code has it. The flag \<^verbatim>\<open>_is_template_loaded\<close> is false in every state a
  run of events reaches from the constructor, and a tick does not depend on it: with the
  flag set either way it raises, calls and renders the same. What holds a tick back is
  the attribute \<^verbatim>\<open>template_path\<close>: it exists only once a confirmed dialog has assigned
  it, and while it does not, a tick raises before any feature detection, having called
  only \<^verbatim>\<open>read\<close> and \<^verbatim>\<open>cv2.cvtColor\<close>.
\<close>

theorem template_flag_never_set_nor_read:
  "\<not> is_template_loaded (fst (run cv evs (My_App_init ui))) \<and>
   SLOT_query_camera cv grabbed (self\<lparr>is_template_loaded := b\<rparr>) =
     (case SLOT_query_camera cv grabbed self of
        (r, self1, fx) \<Rightarrow> (r, self1\<lparr>is_template_loaded := b\<rparr>, fx)) \<and>
   template_path (fst (run cv evs (My_App_init ui))) = chosen_path evs None \<and>
   (template_path self = None \<longrightarrow>
      isl (exec_value (SLOT_query_camera cv grabbed self)) \<and>
      exec_effects (SLOT_query_camera cv grabbed self) = [Call Cv_read, Call Cv_cvtColor])"
  using tick_oblivious_flag [of b cv grabbed] tick_without_path [of self cv grabbed]
  by (simp add: run_flag run_path init_fields oblivious_def)

text \<open>
  C5's theorem at the constructor's state: no path is stored, and a tick with a good
  frame raises after \<^verbatim>\<open>read\<close> and \<^verbatim>\<open>cv2.cvtColor\<close>.
\<close>

theorem template_flag_never_set_nor_read_witness:
  "template_path (My_App_init (demo_ui ''&Enable camera'')) = None \<and>
   isl (exec_value (SLOT_query_camera (demo_cv2 demo_four None) (Some demo_image)
          (My_App_init (demo_ui ''&Enable camera'')))) \<and>
   exec_effects (SLOT_query_camera (demo_cv2 demo_four None) (Some demo_image)
          (My_App_init (demo_ui ''&Enable camera''))) = [Call Cv_read, Call Cv_cvtColor]"
  using template_flag_never_set_nor_read
    [where cv = "demo_cv2 demo_four None" and evs = "[]" and ui = "demo_ui ''&Enable camera''"
       and grabbed = "Some demo_image" and self = "My_App_init (demo_ui ''&Enable camera'')"
       and b = False]
  by (simp add: init_fields)

text \<open>
  C5 as stated fails: after a template was chosen and the camera enabled the flag is
  still false, and the next tick runs feature detection.
\<close>

theorem matching_runs_with_flag_false:
  "fst (run (demo_cv2 demo_four None) [Browse_clicked True [''box.png''], Toggle_clicked]
         (My_App_init (demo_ui ''&Enable camera''))) = demo_running \<and>
   \<not> is_template_loaded demo_running \<and>
   Call Cv_detectAndCompute \<in> set (exec_effects
      (dispatch (demo_cv2 demo_four None) (Timer_timeout (Some demo_image)) demo_running))"
proof -
  have flag: "\<not> is_template_loaded demo_running"
    by (simp add: demo_running_def)
  have tick: "dispatch (demo_cv2 demo_four None) (Timer_timeout (Some demo_image)) demo_running =
      SLOT_query_camera (demo_cv2 demo_four None) (Some demo_image) demo_running"
    by (simp add: demo_running_def)
  have "Call Cv_detectAndCompute \<in> set (exec_effects
      (SLOT_query_camera (demo_cv2 demo_four None) (Some demo_image) demo_running))"
    by (simp only: tick_split demo_query_matches demo_filter_four sum.case prod.case)
      (simp add: exec_effects_def split: prod.splits)
  with flag demo_run_to_running [of "demo_cv2 demo_four None"] show ?thesis
    unfolding tick by blast
qed

section \<open>Properties of SLOT\_toggle\_camera\<close>

lemma toggle_twice_fields:
  "is_cam_enabled (toggle_twice self) = is_cam_enabled self"
  "active (timer (toggle_twice self)) = is_cam_enabled self"
  "toggle_cam_button (toggle_twice self) = button_label (is_cam_enabled self)"
  by (simp_all add: toggle_twice_def toggle_frame)

lemma toggle_twice_id:
  "active (timer self) = is_cam_enabled self \<Longrightarrow>
   toggle_cam_button self = button_label (is_cam_enabled self) \<Longrightarrow> toggle_twice self = self"
  by (cases self; cases "timer self")
    (auto simp: toggle_twice_def SLOT_toggle_camera_def exec_state_def button_label_def)

text \<open>
  C6, as the code has it. Two toggles always return the enabled flag to its value; they
  leave the timer running exactly if the flag is set and the button with the text that
  goes with the flag. So they return the whole object to what it was whenever the timer
  and the text agreed with the flag before. In every state a run reaches from the
  constructor the timer agrees with the flag, and the text does once the button was
  pressed at least once or if the layout file's text is \<^verbatim>\<open>&Enable camera\<close>.
\<close>

theorem toggle_twice_restores:
  "is_cam_enabled (toggle_twice self) = is_cam_enabled self \<and>
   active (timer (toggle_twice self)) = is_cam_enabled self \<and>
   toggle_cam_button (toggle_twice self) = button_label (is_cam_enabled self) \<and>
   (active (timer self) = is_cam_enabled self \<and>
    toggle_cam_button self = button_label (is_cam_enabled self) \<longrightarrow> toggle_twice self = self) \<and>
   active (timer (toggle_twice (fst (run cv evs (My_App_init ui))))) =
     active (timer (fst (run cv evs (My_App_init ui)))) \<and>
   (Toggle_clicked \<in> set evs \<or> ui_toggle_text ui = ''&Enable camera'' \<longrightarrow>
      toggle_twice (fst (run cv evs (My_App_init ui))) = fst (run cv evs (My_App_init ui)))"
proof -
  let ?r = "fst (run cv evs (My_App_init ui))"
  have step: "is_cam_enabled ?r = active (timer ?r)"
    by (rule run_in_step) (simp add: init_fields)
  have "toggle_twice ?r = ?r"
    if "Toggle_clicked \<in> set evs \<or> ui_toggle_text ui = ''&Enable camera''"
  proof -
    from that have "toggle_cam_button (My_App_init ui) = button_label (is_cam_enabled (My_App_init ui))
        \<or> Toggle_clicked \<in> set evs"
      by (auto simp: init_fields button_label_def)
    from run_label [OF this] step show ?thesis
      by (intro toggle_twice_id) simp_all
  qed
  with step show ?thesis
    using toggle_twice_id [of self] by (simp add: toggle_twice_fields)
qed

text \<open>
  C6's theorem after one press of the button, from a layout whose button reads
  \<^verbatim>\<open>Camera\<close>: two more presses change nothing.
\<close>

theorem toggle_twice_restores_witness:
  "Toggle_clicked \<in> set [Toggle_clicked] \<and>
   toggle_twice (fst (run (demo_cv2 demo_four None) [Toggle_clicked] (My_App_init (demo_ui ''Camera''))))
     = fst (run (demo_cv2 demo_four None) [Toggle_clicked] (My_App_init (demo_ui ''Camera'')))"
  using toggle_twice_restores
    [where self = "My_App_init (demo_ui ''Camera'')" and cv = "demo_cv2 demo_four None"
       and evs = "[Toggle_clicked]" and ui = "demo_ui ''Camera''"]
  by simp

text \<open>
  C6 as stated fails in the state the constructor builds from a layout whose button
  reads \<^verbatim>\<open>Camera\<close>: after two presses the button reads \<^verbatim>\<open>&Enable camera\<close>.
\<close>

theorem toggle_twice_changes_label:
  "toggle_cam_button (toggle_twice (My_App_init (demo_ui ''Camera''))) = ''&Enable camera'' \<and>
   toggle_cam_button (My_App_init (demo_ui ''Camera'')) = ''Camera''"
  by (simp add: toggle_twice_fields init_fields button_label_def demo_ui_def)

text \<open>
  C10. In every state a run of events reaches from the constructor the enabled flag
  equals whether the timer is active. After \<open>SLOT_toggle_camera\<close> the button reads
  \<^verbatim>\<open>&Disable camera\<close> exactly if the flag is set and \<^verbatim>\<open>&Enable camera\<close> exactly if
  it is not. \<open>SLOT_browse_button\<close> and \<open>SLOT_query_camera\<close> change neither the flag nor
  the timer (whether or not they raise).
\<close>

theorem flag_equals_timer_running:
  "is_cam_enabled (fst (run cv evs (My_App_init ui))) =
     active (timer (fst (run cv evs (My_App_init ui)))) \<and>
   (toggle_cam_button (exec_state (SLOT_toggle_camera self)) = ''&Disable camera'') =
     is_cam_enabled (exec_state (SLOT_toggle_camera self)) \<and>
   (toggle_cam_button (exec_state (SLOT_toggle_camera self)) = ''&Enable camera'') =
     (\<not> is_cam_enabled (exec_state (SLOT_toggle_camera self))) \<and>
   is_cam_enabled (exec_state (SLOT_browse_button dlg self)) = is_cam_enabled self \<and>
   timer (exec_state (SLOT_browse_button dlg self)) = timer self \<and>
   is_cam_enabled (exec_state (SLOT_query_camera cv grabbed self)) = is_cam_enabled self \<and>
   timer (exec_state (SLOT_query_camera cv grabbed self)) = timer self"
proof -
  have "is_cam_enabled (fst (run cv evs (My_App_init ui))) =
      active (timer (fst (run cv evs (My_App_init ui))))"
    by (rule run_in_step) (simp add: init_fields)
  then show ?thesis
    by (simp add: browse_frame tick_frame toggle_frame button_label_def)
qed

section \<open>Properties of convert\_cv\_to\_pixmap\<close>

lemma swap_rb3_length: "length (swap_rb3 d) = 3 * (length d div 3)"
  by (induction d rule: swap_rb3.induct) simp_all

lemma swap_rb3_nth:
  "3 * i + 2 < length d \<Longrightarrow>
     swap_rb3 d ! (3 * i) = d ! (3 * i + 2) \<and>
     swap_rb3 d ! (3 * i + 1) = d ! (3 * i + 1) \<and>
     swap_rb3 d ! (3 * i + 2) = d ! (3 * i)"
proof (induction d arbitrary: i rule: swap_rb3.induct)
  case (1 b g r rest)
  show ?case
  proof (cases i)
    case 0
    then show ?thesis by simp
  next
    case (Suc j)
    with "1.prems" have "3 * j + 2 < length rest" by simp
    from "1.IH" [OF this] Suc show ?thesis by simp
  qed
qed simp_all

text \<open>
  C7. For a colour image of height \<open>h\<close> and width \<open>w\<close> (three channels, not empty, \<open>h * w * 3\<close>
  bytes) \<open>convert_cv_to_pixmap\<close> returns, whatever the object it is called on and
  without changing it, a pixmap of width \<open>w\<close> and height \<open>h\<close> with \<open>3 * w\<close> bytes per
  line in format RGB888; it has as many bytes as the image, and in each pixel the first
  and third byte of the image have changed places (B, G, R becomes R, G, B). Its only
  effect is the call of \<^verbatim>\<open>cv2.cvtColor\<close>. The result is a function of the image alone.
\<close>

theorem convert_cv_to_pixmap_reorders:
  assumes "shape img = [h, w, 3]" and "0 < h" and "0 < w" and "length (data img) = h * w * 3"
  shows "convert_cv_to_pixmap img self =
           (Inr (FromImage \<lparr>q_data = swap_rb3 (data img), q_width = w, q_height = h,
                             q_bytesPerLine = 3 * w, q_format = Format_RGB888\<rparr>),
            self, [Call Cv_cvtColor]) \<and>
         length (swap_rb3 (data img)) = length (data img) \<and>
         (\<forall>i < h * w.
            swap_rb3 (data img) ! (3 * i) = data img ! (3 * i + 2) \<and>
            swap_rb3 (data img) ! (3 * i + 1) = data img ! (3 * i + 1) \<and>
            swap_rb3 (data img) ! (3 * i + 2) = data img ! (3 * i))"
proof (intro conjI allI impI)
  show "convert_cv_to_pixmap img self =
           (Inr (FromImage \<lparr>q_data = swap_rb3 (data img), q_width = w, q_height = h,
                             q_bytesPerLine = 3 * w, q_format = Format_RGB888\<rparr>),
            self, [Call Cv_cvtColor])"
    using assms(1-3)
    by (simp add: convert_cv_to_pixmap_def cvtColor_BGR2RGB_def unpack3_def exec_defs)
  show "length (swap_rb3 (data img)) = length (data img)"
    using assms(4) by (simp add: swap_rb3_length)
  fix i
  assume "i < h * w"
  with assms(4) have "3 * i + 2 < length (data img)" by simp
  from swap_rb3_nth [OF this]
  show "swap_rb3 (data img) ! (3 * i) = data img ! (3 * i + 2)"
    and "swap_rb3 (data img) ! (3 * i + 1) = data img ! (3 * i + 1)"
    and "swap_rb3 (data img) ! (3 * i + 2) = data img ! (3 * i)"
    by simp_all
qed

text \<open>C7's theorem on a 1 by 2 image, with the bytes of the pixmap written out.\<close>

theorem convert_cv_to_pixmap_reorders_witness:
  "shape demo_image = [1, 2, 3] \<and> length (data demo_image) = 1 * 2 * 3 \<and>
   data demo_image = [1, 2, 3, 4, 5, 6] \<and>
   convert_cv_to_pixmap demo_image demo_running =
     (Inr (FromImage \<lparr>q_data = [3, 2, 1, 6, 5, 4], q_width = 2, q_height = 1,
                       q_bytesPerLine = 6, q_format = Format_RGB888\<rparr>),
      demo_running, [Call Cv_cvtColor])"
proof -
  have h: "shape demo_image = [1, 2, 3]" "(0::nat) < 1" "(0::nat) < 2"
    "length (data demo_image) = 1 * 2 * 3"
    by (simp_all add: demo_image_def)
  have d: "data demo_image = [1, 2, 3, 4, 5, 6]"
    by (simp add: demo_image_def)
  from convert_cv_to_pixmap_reorders [OF h, of demo_running] h d show ?thesis
    by simp
qed

section \<open>Properties of SLOT\_browse\_button and of standard output\<close>

lemma stdout_of_append: "stdout_of (fx1 @ fx2) = stdout_of fx1 @ stdout_of fx2"
  by (induction fx1 rule: stdout_of.induct) simp_all

lemma stdout_of_no_print: "(\<And>line. Print line \<notin> set fx) \<Longrightarrow> stdout_of fx = []"
  by (induction fx rule: stdout_of.induct) auto

lemma tick_prints_nothing: "stdout_of (exec_effects (SLOT_query_camera cv grabbed self)) = []"
proof (rule stdout_of_no_print)
  fix line
  have "avoids (Print line) (SLOT_query_camera cv grabbed)"
    by (rule tick_avoids) auto
  then show "Print line \<notin> set (exec_effects (SLOT_query_camera cv grabbed self))"
    by (simp add: avoids_def)
qed

lemma browse_prints:
  "stdout_of (exec_effects (SLOT_browse_button (accepted, files) self)) =
     (if accepted then
        (case files of [] \<Rightarrow> [] | file # _ \<Rightarrow> [''Loaded template image file: '' @ file])
      else
        (case template_path self of
           None \<Rightarrow> []
         | Some path \<Rightarrow> [''Loaded template image file: '' @ path]))"
  unfolding slot_defs exec_defs
  by (simp split: list.splits option.splits)

lemma toggle_prints_nothing: "stdout_of (exec_effects (SLOT_toggle_camera self)) = []"
  by (simp add: SLOT_toggle_camera_def exec_effects_def)

text \<open>
  C8, as the code has it. \<open>SLOT_browse_button\<close> prints the line whenever it gets past
  the dialog with a path stored: after a confirmed dialog, with the file selected, and
  also after a cancelled one if an earlier dialog had stored a path, with that earlier
  path. It prints nothing after a cancelled dialog while no path is stored (it raises
  AttributeError) or a confirmed one that lists no file. The other two slots print
  nothing.
\<close>

theorem browse_prints_whenever_path_stored:
  "stdout_of (exec_effects (SLOT_browse_button (accepted, files) self)) =
     (if accepted then
        (case files of [] \<Rightarrow> [] | file # _ \<Rightarrow> [''Loaded template image file: '' @ file])
      else
        (case template_path self of
           None \<Rightarrow> []
         | Some path \<Rightarrow> [''Loaded template image file: '' @ path])) \<and>
   stdout_of (exec_effects (SLOT_toggle_camera self)) = [] \<and>
   stdout_of (exec_effects (SLOT_query_camera cv grabbed self)) = []"
  by (simp add: browse_prints tick_prints_nothing toggle_prints_nothing)

text \<open>
  C8 as stated fails: from the constructor's state, a dialog confirmed with \<^verbatim>\<open>box.png\<close>
  and then a cancelled one print the line twice.
\<close>

theorem cancelled_browse_prints:
  "stdout_of (snd (run (demo_cv2 demo_four None)
      [Browse_clicked True [''box.png''], Browse_clicked False []]
      (My_App_init (demo_ui ''&Enable camera'')))) =
     [''Loaded template image file: box.png'', ''Loaded template image file: box.png'']"
  by (simp add: My_App_init_def Let_def slot_defs exec_defs)

section \<open>Properties of the constructor\<close>

text \<open>
  C9. The constructor sets the frame rate to 2 and the timer's interval to
  \<open>100 / 2 = 50\<close>, which is not \<open>1000 / 2\<close>; the timer is not started.
\<close>

theorem timer_interval_is_100_over_fps:
  "cam_fps (My_App_init ui) = 2 \<and>
   interval (timer (My_App_init ui)) = 50 \<and>
   real_of_int (interval (timer (My_App_init ui))) = 100 / real_of_int (cam_fps (My_App_init ui)) \<and>
   real_of_int (interval (timer (My_App_init ui))) \<noteq> 1000 / real_of_int (cam_fps (My_App_init ui)) \<and>
   \<not> active (timer (My_App_init ui))"
  by (simp add: My_App_init_def setInterval_def py_int_def Let_def)

end
